theory Spec2Isabelle
  imports Main "HOL-Library.Word"
begin

section \<open>VTIL-Common/util/type_helpers.hpp\<close>

text \<open>
  The header is a collection of templates. A template is a function from types (and
  compile-time values) to types, values or statements, so the embedding has two layers:
  \<^item> the compile-time layer: C++ types are a datatype, a type-level template is a
    function on it, an ill-formed instantiation is an error value;
  \<^item> the run-time layer: the statement that the compile-time layer selected, run on
    the value of the object it is applied to.

  \<open>make_static\<close>, \<open>make_default\<close> and \<open>static_default\<close> are left out. The first
  two return a reference to a static data member, and the third is a pair of conversion
  function templates, one of which cannot be instantiated. What there is to say about
  them (that two references denote the same storage, how often and when the member is
  initialised, which of the two conversion functions an initialisation selects) is decided
  by the rules of the language and not by anything these functions compute.
\<close>

subsection \<open>C++ types\<close>

text \<open>
  A type is a type that can be pointed to, or an lvalue or rvalue reference to one. What
  can be pointed to is an object type or \<open>void\<close> with its cv-qualifiers, or a function
  type, which has none. A reference carries no qualifier of its own and never refers to a
  reference, as in C++. \<open>Named\<close> is an object type that is neither a pointer nor an
  instantiation of a template with type parameters (\<open>int\<close>, \<open>double\<close>, a plain
  class); \<open>Inst X args\<close> is \<open>X<args...>\<close> for a template \<open>X\<close> whose parameters
  are all types; \<open>Function R Ps\<close> is the function type \<open>R(Ps...)\<close>.
\<close>

datatype ctype = Val qtype | LRef qtype | RRef qtype
  and qtype = Q bool bool core | Function ctype "ctype list"
  and core = Void | Named string | Inst string "ctype list" | Ptr qtype

text \<open>The compile-time failures the header can run into.\<close>

datatype compile_error =
    No_type_member
  | Indirection_through_void
  | Deduction_failed
  | Negative_sequence_length
  | Assignment_to_const
  | No_assignment_from_rvalue
  | Return_ill_formed

subsection \<open>Standard type traits used by the header\<close>

text \<open>
  \<open>std::add_const_t\<close> and \<open>std::remove_const_t\<close> leave a function type as it is.
\<close>

fun std_is_const :: "qtype \<Rightarrow> bool" where
  "std_is_const (Q c v k) = c"
| "std_is_const (Function R Ps) = False"

fun std_is_void :: "qtype \<Rightarrow> bool" where
  "std_is_void (Q c v Void) = True"
| "std_is_void _ = False"

fun std_is_function :: "qtype \<Rightarrow> bool" where
  "std_is_function (Function R Ps) = True"
| "std_is_function _ = False"

fun std_add_const :: "qtype \<Rightarrow> qtype" where
  "std_add_const (Q c v k) = Q True v k"
| "std_add_const (Function R Ps) = Function R Ps"

fun std_remove_const :: "qtype \<Rightarrow> qtype" where
  "std_remove_const (Q c v k) = Q False v k"
| "std_remove_const (Function R Ps) = Function R Ps"

fun std_remove_cv :: "qtype \<Rightarrow> qtype" where
  "std_remove_cv (Q c v k) = Q False False k"
| "std_remove_cv (Function R Ps) = Function R Ps"

fun std_remove_reference :: "ctype \<Rightarrow> qtype" where
  "std_remove_reference (Val q) = q"
| "std_remove_reference (LRef q) = q"
| "std_remove_reference (RRef q) = q"

definition std_remove_cvref :: "ctype \<Rightarrow> ctype" where
  "std_remove_cvref T = Val (std_remove_cv (std_remove_reference T))"

fun std_is_pointer :: "ctype \<Rightarrow> bool" where
  "std_is_pointer (Val (Q c v (Ptr p))) = True"
| "std_is_pointer _ = False"

fun std_is_reference :: "ctype \<Rightarrow> bool" where
  "std_is_reference (Val q) = False"
| "std_is_reference _ = True"

subsection \<open>Check for specialization\<close>

text \<open>
  \<open>impl::is_specialization_v<Tmp, T>\<close>: the primary template is \<open>false\<close>, the partial
  specialisation for \<open>Tmp<Tx...>\<close> is \<open>true\<close>. It matches an unqualified
  instantiation of \<open>Tmp\<close> only, with any argument list.
\<close>

fun impl_is_specialization_v :: "string \<Rightarrow> ctype \<Rightarrow> bool" where
  "impl_is_specialization_v Tmp (Val (Q False False (Inst X Tx))) = (X = Tmp)"
| "impl_is_specialization_v Tmp _ = False"

definition is_specialization_v :: "string \<Rightarrow> ctype \<Rightarrow> bool" where
  "is_specialization_v Tmp T = impl_is_specialization_v Tmp (std_remove_cvref T)"

subsection \<open>Const-qualifier transforms\<close>

text \<open>
  \<open>impl::decay_ptr<T>\<close> is \<open>std::remove_cvref_t<T>\<close> when that is a pointer type
  and \<open>T\<close> itself otherwise.
\<close>

definition decay_ptr :: "ctype \<Rightarrow> ctype" where
  "decay_ptr T = (if std_is_pointer (std_remove_cvref T) then std_remove_cvref T else T)"

text \<open>
  \<open>impl::make_const\<close>, \<open>impl::make_mutable\<close> and \<open>impl::is_const_underlying\<close>: the
  primary templates of the first two have no member \<open>type\<close>; the partial
  specialisations match \<open>T&\<close> and the unqualified pointer type \<open>T*\<close>.
\<close>

fun impl_make_const :: "ctype \<Rightarrow> compile_error + ctype" where
  "impl_make_const (LRef T) = Inr (LRef (std_add_const T))"
| "impl_make_const (Val (Q False False (Ptr T))) = Inr (Val (Q False False (Ptr (std_add_const T))))"
| "impl_make_const _ = Inl No_type_member"

fun impl_make_mutable :: "ctype \<Rightarrow> compile_error + ctype" where
  "impl_make_mutable (LRef T) = Inr (LRef (std_remove_const T))"
| "impl_make_mutable (Val (Q False False (Ptr T))) =
     Inr (Val (Q False False (Ptr (std_remove_const T))))"
| "impl_make_mutable _ = Inl No_type_member"

fun impl_is_const_underlying :: "ctype \<Rightarrow> bool" where
  "impl_is_const_underlying (LRef (Q True v k)) = True"
| "impl_is_const_underlying (Val (Q False False (Ptr (Q True v k)))) = True"
| "impl_is_const_underlying _ = False"

definition is_const_underlying_v :: "ctype \<Rightarrow> bool" where
  "is_const_underlying_v T = impl_is_const_underlying (decay_ptr T)"

definition is_mutable_underlying_v :: "ctype \<Rightarrow> bool" where
  "is_mutable_underlying_v T = (\<not> impl_is_const_underlying (decay_ptr T))"

definition make_const_t :: "ctype \<Rightarrow> compile_error + ctype" where
  "make_const_t T = impl_make_const (decay_ptr T)"

definition make_mutable_t :: "ctype \<Rightarrow> compile_error + ctype" where
  "make_mutable_t T = impl_make_mutable (decay_ptr T)"

text \<open>
  \<open>carry_const_t<B, T>\<close> is \<open>std::conditional_t\<close> over the two transforms. Both
  alternatives are named as template arguments, so both have to be well-formed.
\<close>

definition carry_const_t :: "ctype \<Rightarrow> ctype \<Rightarrow> compile_error + ctype" where
  "carry_const_t B T =
     (case make_const_t T of
        Inl e \<Rightarrow> Inl e
      | Inr Tc \<Rightarrow>
          (case make_mutable_t T of
             Inl e \<Rightarrow> Inl e
           | Inr Tm \<Rightarrow> Inr (if is_const_underlying_v B then Tc else Tm)))"

text \<open>
  The transform applied to the result of another one: an ill-formed first step leaves
  nothing to apply the second one to.
\<close>

definition then_t :: "compile_error + ctype \<Rightarrow> (ctype \<Rightarrow> compile_error + ctype) \<Rightarrow> compile_error + ctype" where
  "then_t r f = (case r of Inl e \<Rightarrow> Inl e | Inr T \<Rightarrow> f T)"

text \<open>
  What the transforms are defined on: lvalue references, and every type that is a
  pointer once its reference and cv-qualifiers are removed.
\<close>

definition is_lvalue_reference_or_pointer :: "ctype \<Rightarrow> bool" where
  "is_lvalue_reference_or_pointer T =
     ((case T of LRef _ \<Rightarrow> True | _ \<Rightarrow> False) \<or> std_is_pointer (std_remove_cvref T))"

definition is_reference_or_pointer :: "ctype \<Rightarrow> bool" where
  "is_reference_or_pointer T = (std_is_reference T \<or> std_is_pointer T)"

text \<open>
  The forms of a reference or pointer type that the specification speaks of: the type
  itself, with \<open>const\<close> added to, or removed from, the type it refers or points to.
  They are written down from the specification, not from the header.
\<close>

fun const_form :: "ctype \<Rightarrow> ctype" where
  "const_form (LRef q) = LRef (std_add_const q)"
| "const_form (RRef q) = RRef (std_add_const q)"
| "const_form (Val (Q c v (Ptr p))) = Val (Q c v (Ptr (std_add_const p)))"
| "const_form T = T"

fun non_const_form :: "ctype \<Rightarrow> ctype" where
  "non_const_form (LRef q) = LRef (std_remove_const q)"
| "non_const_form (RRef q) = RRef (std_remove_const q)"
| "non_const_form (Val (Q c v (Ptr p))) = Val (Q c v (Ptr (std_remove_const p)))"
| "non_const_form T = T"

subsection \<open>Offsets and pointers at offsets\<close>

type_synonym uint64_t = "64 word"
type_synonym int32_t = "32 word"

text \<open>
  A pointer is the type it points to and the address it holds. A pointer to member
  \<open>V C::*\<close> designates the member by its byte offset in \<open>C\<close>, a natural number;
  \<open>&(obj->*ref)\<close> is the address of the object plus that offset, in 64-bit address
  arithmetic. The null pointer is address 0. A signed 32-bit value is a \<open>32 word\<close>
  read by \<open>sint\<close>.
\<close>

record pointer =
  pointee :: qtype
  address :: uint64_t

definition pointer_type :: "pointer \<Rightarrow> ctype" where
  "pointer_type p = Val (Q False False (Ptr (pointee p)))"

definition make_null :: uint64_t where
  "make_null = 0"

definition member_address :: "uint64_t \<Rightarrow> nat \<Rightarrow> uint64_t" where
  "member_address obj ref = obj + of_nat ref"

text \<open>\<open>make_offset\<close>: \<open>(int32_t)(uint64_t) &(make_null<C>()->*ref)\<close>.\<close>

definition make_offset :: "nat \<Rightarrow> int32_t" where
  "make_offset ref = ucast (member_address make_null ref)"

text \<open>
  \<open>carry_const(base, value)\<close> on a pointer value: the value cast to
  \<open>carry_const_t<B, T>\<close>, which keeps the address.
\<close>

definition carry_const :: "ctype \<Rightarrow> ctype \<Rightarrow> uint64_t \<Rightarrow> compile_error + ctype \<times> uint64_t" where
  "carry_const B T val = (case carry_const_t B T of Inl e \<Rightarrow> Inl e | Inr R \<Rightarrow> Inr (R, val))"

text \<open>
  \<open>ptr_at<T>(base, off)\<close>: \<open>base\<close> is an lvalue of type \<open>B*\<close>, so \<open>carry_const\<close>
  deduces \<open>B*&\<close> for it, and \<open>T*\<close> for the prvalue \<open>(T*)(((uint64_t) base) + off)\<close>.
  In the sum \<open>off\<close> is converted to \<open>uint64_t\<close>, which sign-extends it. The return
  type \<open>auto*\<close> has to deduce a pointer. The target \<open>T\<close> is anything that can be
  pointed to: an object type, \<open>void\<close> (the default) or a function type.
\<close>

definition ptr_at :: "qtype \<Rightarrow> pointer \<Rightarrow> int32_t \<Rightarrow> compile_error + pointer" where
  "ptr_at T base off =
     (case carry_const (LRef (Q False False (Ptr (pointee base)))) (Val (Q False False (Ptr T)))
             (address base + scast off) of
        Inl e \<Rightarrow> Inl e
      | Inr (R, a) \<Rightarrow>
          (case R of
             Val (Q c v (Ptr q)) \<Rightarrow> Inr \<lparr>pointee = q, address = a\<rparr>
           | _ \<Rightarrow> Inl Deduction_failed))"

text \<open>
  \<open>ref_at<T>(base, off)\<close> is \<open>*ptr_at<T>(base, off)\<close>: an lvalue of the pointee
  type that designates what is at the pointer's address. A pointer to \<open>void\<close> cannot
  be dereferenced.
\<close>

record reference =
  referred :: qtype
  location :: uint64_t

definition ref_at :: "qtype \<Rightarrow> pointer \<Rightarrow> int32_t \<Rightarrow> compile_error + reference" where
  "ref_at T base off =
     (case ptr_at T base off of
        Inl e \<Rightarrow> Inl e
      | Inr p \<Rightarrow>
          (if std_is_void (pointee p) then Inl Indirection_through_void
           else Inr \<lparr>referred = pointee p, location = address p\<rparr>))"

subsection \<open>Series\<close>

text \<open>
  \<open>std::make_integer_sequence<Ti, N>\<close> is \<open>0, ..., N - 1\<close> and ill-formed for a
  negative \<open>N\<close>. \<open>std::array{ x... }\<close> deduces its type from its arguments:
  \<^item> with no argument nothing deduces the element type, and the deduction fails;
  \<^item> with one argument that is itself a \<open>std::array\<close> (or of a class derived from
    one) the copy deduction candidate is more specialised than the guide
    \<open>array(T, U...) -> array<T, 1 + sizeof...(U)>\<close>, and the result is a copy of the
    argument, not an array that holds it;
  \<^item> otherwise the guide gives an array of the arguments.
  Whether the elements are of such a type is a parameter.
\<close>

datatype 'a deduced_array = Array_of "'a list" | Copy_of 'a

definition std_make_integer_sequence :: "int \<Rightarrow> compile_error + int list" where
  "std_make_integer_sequence N = (if N < 0 then Inl Negative_sequence_length else Inr [0..N - 1])"

definition std_array_deduced :: "bool \<Rightarrow> 'a list \<Rightarrow> compile_error + 'a deduced_array" where
  "std_array_deduced element_is_array xs =
     (case xs of
        [] \<Rightarrow> Inl Deduction_failed
      | [x] \<Rightarrow> if element_is_array then Inr (Copy_of x) else Inr (Array_of [x])
      | _ \<Rightarrow> Inr (Array_of xs))"

text \<open>
  \<open>make_expanded_series<N>(f)\<close>; \<open>result_is_array\<close> says whether the type that
  \<open>f\<close> returns is a \<open>std::array\<close>.
\<close>

definition impl_make_expanded_series ::
    "bool \<Rightarrow> (int \<Rightarrow> 'a) \<Rightarrow> int list \<Rightarrow> compile_error + 'a deduced_array" where
  "impl_make_expanded_series result_is_array f I = std_array_deduced result_is_array (map f I)"

definition make_expanded_series ::
    "bool \<Rightarrow> int \<Rightarrow> (int \<Rightarrow> 'a) \<Rightarrow> compile_error + 'a deduced_array" where
  "make_expanded_series result_is_array N f =
     (case std_make_integer_sequence N of
        Inl e \<Rightarrow> Inl e
      | Inr I \<Rightarrow> impl_make_expanded_series result_is_array f I)"

subsection \<open>Resetting and possessing values\<close>

text \<open>
  \<open>null_value\<close> and \<open>possess_value\<close> look at their type \<open>T\<close> through type traits
  and concepts, and act on the object through operations of \<open>T\<close>. The traits are a
  record of the answers; the operations are a record of functions on the values of
  \<open>T\<close>. An operation is called only in a branch whose guard says that it exists.

  Two answers are in the record that the header does not ask for and the statements it
  selects depend on: \<open>is_const\<close> (\<open>std::is_const_v<T>\<close>; a built-in assignment to a
  const object is ill-formed), and \<open>local_returnable\<close>: whether \<open>return value;\<close> is
  well-formed for a local \<open>T value\<close>. The returned object is initialised from
  \<open>value\<close> as an rvalue first, so it is for a move-constructible type, and it is not
  where that initialisation selects a deleted move constructor.
\<close>

datatype ctor_args = No_args | Nullptr_t | Nullopt_t | Int8_t | Uint8_t

record type_traits =
  is_const :: bool
  is_integral :: bool
  is_floating_point :: bool
  is_pointer :: bool
  CustomResettable :: bool
  CustomClearable :: bool
  is_move_assignable :: bool
  is_copy_assignable :: bool
  Constructable :: "ctor_args \<Rightarrow> bool"
  is_trivially_move_constructible :: bool
  is_move_constructible :: bool
  is_copy_constructible :: bool
  local_returnable :: bool

definition is_arithmetic :: "type_traits \<Rightarrow> bool" where
  "is_arithmetic T = (is_integral T \<or> is_floating_point T)"

text \<open>
  \<open>op_zero\<close> is \<open>0\<close> converted to \<open>T\<close>: the zero of an arithmetic type, the null
  pointer of a pointer type (which is also what \<open>nullptr\<close> converts to).
  \<open>op_construct a\<close> is \<open>T()\<close>, \<open>T(nullptr)\<close>, \<open>T(std::nullopt)\<close>,
  \<open>T((int8_t) 0)\<close> or \<open>T((uint8_t) 0u)\<close>. \<open>op_assign ref x\<close> is the value of
  \<open>ref\<close> after \<open>ref = x\<close>. \<open>op_move_construct v\<close> is the object built by
  \<open>T value{ std::move(v) }\<close> and what that leaves in \<open>v\<close>.
\<close>

record 'v type_ops =
  op_zero :: 'v
  op_reset :: "'v \<Rightarrow> 'v"
  op_clear :: "'v \<Rightarrow> 'v"
  op_construct :: "ctor_args \<Rightarrow> 'v"
  op_assign :: "'v \<Rightarrow> 'v \<Rightarrow> 'v"
  op_move_construct :: "'v \<Rightarrow> 'v \<times> 'v"
  op_copy_construct :: "'v \<Rightarrow> 'v"

text \<open>
  The \<open>if constexpr\<close> chain of \<open>null_value\<close> selects one statement at compile time,
  or none, and the selected statement is instantiated; the return type is deduced from
  it. \<open>ref = 0\<close> and \<open>ref = nullptr\<close> are ill-formed for a const \<open>T\<close>.
  \<open>ref = T(...)\<close> assigns from an rvalue, which is what
  \<open>std::is_move_assignable_v<T>\<close> tests: it is ill-formed for a type that passes the
  guard as copy-assignable only.
\<close>

datatype null_stmt = Assign_zero | Assign_nullptr | Call_reset | Call_clear | Assign_constructed ctor_args

datatype return_type = Returns_void | Returns_bool | Returns_T | Returns_T_rvalue_reference

definition assign_constructed :: "type_traits \<Rightarrow> ctor_args \<Rightarrow> compile_error + null_stmt option" where
  "assign_constructed T a =
     (if is_move_assignable T then Inr (Some (Assign_constructed a))
      else Inl No_assignment_from_rvalue)"

definition null_value_branch :: "type_traits \<Rightarrow> compile_error + null_stmt option" where
  "null_value_branch T =
     (if is_arithmetic T then
        (if is_const T then Inl Assignment_to_const else Inr (Some Assign_zero))
      else if is_pointer T then
        (if is_const T then Inl Assignment_to_const else Inr (Some Assign_nullptr))
      else if CustomResettable T then Inr (Some Call_reset)
      else if CustomClearable T then Inr (Some Call_clear)
      else if is_move_assignable T \<or> is_copy_assignable T then
        (if Constructable T No_args then assign_constructed T No_args
         else if Constructable T Nullptr_t then assign_constructed T Nullptr_t
         else if Constructable T Nullopt_t then assign_constructed T Nullopt_t
         else if Constructable T Int8_t then assign_constructed T Int8_t
         else if Constructable T Uint8_t then assign_constructed T Uint8_t
         else Inr None)
      else Inr None)"

fun run_null_stmt :: "'v type_ops \<Rightarrow> null_stmt \<Rightarrow> 'v \<Rightarrow> 'v" where
  "run_null_stmt ops Assign_zero ref = op_zero ops"
| "run_null_stmt ops Assign_nullptr ref = op_zero ops"
| "run_null_stmt ops Call_reset ref = op_reset ops ref"
| "run_null_stmt ops Call_clear ref = op_clear ops ref"
| "run_null_stmt ops (Assign_constructed a) ref = op_assign ops ref (op_construct ops a)"

text \<open>
  The call: a compile error, or the value of \<open>ref\<close> after it and what it returns
  (nothing when the return type is \<open>void\<close>).
\<close>

definition null_value :: "type_traits \<Rightarrow> 'v type_ops \<Rightarrow> 'v \<Rightarrow> compile_error + 'v \<times> bool option" where
  "null_value T ops ref =
     (case null_value_branch T of
        Inl e \<Rightarrow> Inl e
      | Inr None \<Rightarrow> Inr (ref, None)
      | Inr (Some st) \<Rightarrow> Inr (run_null_stmt ops st ref, Some True))"

definition null_value_return_type :: "type_traits \<Rightarrow> compile_error + return_type" where
  "null_value_return_type T =
     (case null_value_branch T of
        Inl e \<Rightarrow> Inl e
      | Inr None \<Rightarrow> Inr Returns_void
      | Inr (Some _) \<Rightarrow> Inr Returns_bool)"

text \<open>
  \<open>Nullable<T>\<close> names the return type of \<open>null_value<T>\<close>, which instantiates the
  body: where that is ill-formed, so is the concept.
\<close>

definition Nullable :: "type_traits \<Rightarrow> compile_error + bool" where
  "Nullable T =
     (case null_value_return_type T of Inl e \<Rightarrow> Inl e | Inr r \<Rightarrow> Inr (r \<noteq> Returns_void))"

text \<open>
  \<open>possess_value\<close> returns \<open>decltype(auto)\<close>: a \<open>T\<close> where it returns
  \<open>std::exchange(...)\<close> or the local \<open>value\<close>, and \<open>T&&\<close>, a reference to its
  argument, where it returns \<open>std::move(v)\<close>. In the latter case nothing has been
  moved yet: the move constructor runs where the caller initialises a \<open>T\<close> from the
  result (\<open>materialize\<close>).

  The \<open>if constexpr\<close> chain selects one statement, or none. The selected statement is
  instantiated: \<open>std::exchange\<close> assigns to its argument, which a const \<open>T\<close> does
  not allow; the two branches that call \<open>null_value(v)\<close> instantiate it; the branch for
  types that are not move constructible returns its local.
\<close>

datatype possess_stmt = Exchange_zero | Move_then_null | Return_move | Copy_then_null

datatype 'v returned = Prvalue 'v | Xvalue_of_argument | Nothing

definition possess_value_branch :: "type_traits \<Rightarrow> possess_stmt option" where
  "possess_value_branch T =
     (if is_integral T \<or> is_floating_point T \<or> is_pointer T then Some Exchange_zero
      else if is_trivially_move_constructible T then Some Move_then_null
      else if is_move_constructible T then Some Return_move
      else if is_copy_constructible T then Some Copy_then_null
      else None)"

text \<open>The statement run: a compile error, or what is returned and what is left in
  \<open>v\<close>.\<close>

fun run_possess_stmt ::
    "type_traits \<Rightarrow> 'v type_ops \<Rightarrow> possess_stmt \<Rightarrow> 'v \<Rightarrow> compile_error + 'v returned \<times> 'v" where
  "run_possess_stmt T ops Exchange_zero v =
     (if is_const T then Inl Assignment_to_const else Inr (Prvalue v, op_zero ops))"
| "run_possess_stmt T ops Move_then_null v =
     (let (value, v') = op_move_construct ops v in
      case null_value T ops v' of Inl e \<Rightarrow> Inl e | Inr r \<Rightarrow> Inr (Prvalue value, fst r))"
| "run_possess_stmt T ops Return_move v = Inr (Xvalue_of_argument, v)"
| "run_possess_stmt T ops Copy_then_null v =
     (let value = op_copy_construct ops v in
      case null_value T ops v of
        Inl e \<Rightarrow> Inl e
      | Inr r \<Rightarrow>
          if local_returnable T then Inr (Prvalue value, fst r) else Inl Return_ill_formed)"

definition possess_value ::
    "type_traits \<Rightarrow> 'v type_ops \<Rightarrow> 'v \<Rightarrow> compile_error + 'v returned \<times> 'v" where
  "possess_value T ops v =
     (case possess_value_branch T of
        None \<Rightarrow> Inr (Nothing, v)
      | Some st \<Rightarrow> run_possess_stmt T ops st v)"

text \<open>The same statement read for its type: a compile error, or the type deduced for the
  return.\<close>

fun possess_stmt_return_type :: "type_traits \<Rightarrow> possess_stmt \<Rightarrow> compile_error + return_type" where
  "possess_stmt_return_type T Exchange_zero =
     (if is_const T then Inl Assignment_to_const else Inr Returns_T)"
| "possess_stmt_return_type T Move_then_null =
     (case null_value_return_type T of Inl e \<Rightarrow> Inl e | Inr _ \<Rightarrow> Inr Returns_T)"
| "possess_stmt_return_type T Return_move = Inr Returns_T_rvalue_reference"
| "possess_stmt_return_type T Copy_then_null =
     (case null_value_return_type T of
        Inl e \<Rightarrow> Inl e
      | Inr _ \<Rightarrow> if local_returnable T then Inr Returns_T else Inl Return_ill_formed)"

definition possess_value_return_type :: "type_traits \<Rightarrow> compile_error + return_type" where
  "possess_value_return_type T =
     (case possess_value_branch T of
        None \<Rightarrow> Inr Returns_void
      | Some st \<Rightarrow> possess_stmt_return_type T st)"

definition Possessable :: "type_traits \<Rightarrow> compile_error + bool" where
  "Possessable T =
     (case possess_value_return_type T of Inl e \<Rightarrow> Inl e | Inr r \<Rightarrow> Inr (r \<noteq> Returns_void))"

definition materialize :: "'v type_ops \<Rightarrow> 'v returned \<times> 'v \<Rightarrow> ('v \<times> 'v) option" where
  "materialize ops r =
     (case fst r of
        Prvalue x \<Rightarrow> Some (x, snd r)
      | Xvalue_of_argument \<Rightarrow> Some (op_move_construct ops (snd r))
      | Nothing \<Rightarrow> None)"

text \<open>
  The order in which the specification lists the constructions that \<open>null_value\<close>
  tries.
\<close>

definition construction_priority :: "ctor_args list" where
  "construction_priority = [No_args, Nullptr_t, Nullopt_t, Int8_t, Uint8_t]"

subsection \<open>Example types\<close>

text \<open>
  Types to run the two functions on. \<open>no_traits\<close> answers no to every question; the
  others change the answers that differ. The values of every example are integers, and
  \<open>marking_ops\<close> gives each operation a result of its own, so that the result of a call
  shows which operation ran.
\<close>

definition no_traits :: type_traits where
  "no_traits =
     \<lparr>is_const = False, is_integral = False, is_floating_point = False, is_pointer = False,
      CustomResettable = False, CustomClearable = False,
      is_move_assignable = False, is_copy_assignable = False,
      Constructable = (\<lambda>_. False),
      is_trivially_move_constructible = False, is_move_constructible = False,
      is_copy_constructible = False, local_returnable = False\<rparr>"

text \<open>\<open>int\<close>, \<open>const int\<close>, \<open>char*\<close> and \<open>char* const\<close>.\<close>

definition int_traits :: type_traits where
  "int_traits =
     no_traits\<lparr>is_integral := True, is_move_assignable := True, is_copy_assignable := True,
       Constructable := (\<lambda>a. a = No_args \<or> a = Int8_t \<or> a = Uint8_t),
       is_trivially_move_constructible := True, is_move_constructible := True,
       is_copy_constructible := True, local_returnable := True\<rparr>"

definition const_int_traits :: type_traits where
  "const_int_traits =
     int_traits\<lparr>is_const := True, is_move_assignable := False, is_copy_assignable := False\<rparr>"

definition char_pointer_traits :: type_traits where
  "char_pointer_traits =
     no_traits\<lparr>is_pointer := True, is_move_assignable := True, is_copy_assignable := True,
       Constructable := (\<lambda>a. a \<noteq> Nullopt_t),
       is_trivially_move_constructible := True, is_move_constructible := True,
       is_copy_constructible := True, local_returnable := True\<rparr>"

definition const_char_pointer_traits :: type_traits where
  "const_char_pointer_traits =
     char_pointer_traits\<lparr>is_const := True, is_move_assignable := False,
       is_copy_assignable := False\<rparr>"

text \<open>
  \<open>std::unique_ptr<int>\<close> has \<open>reset()\<close> and a move constructor of its own;
  \<open>std::vector<int>\<close> has \<open>clear()\<close>;
  \<open>struct both { both(); void reset(); void clear(); }\<close> has both.
\<close>

definition unique_ptr_traits :: type_traits where
  "unique_ptr_traits =
     no_traits\<lparr>CustomResettable := True, is_move_assignable := True,
       Constructable := (\<lambda>a. a = No_args \<or> a = Nullptr_t), is_move_constructible := True,
       local_returnable := True\<rparr>"

definition vector_traits :: type_traits where
  "vector_traits =
     no_traits\<lparr>CustomClearable := True, is_move_assignable := True, is_copy_assignable := True,
       Constructable := (\<lambda>a. a = No_args \<or> a = Int8_t \<or> a = Uint8_t),
       is_move_constructible := True, is_copy_constructible := True,
       local_returnable := True\<rparr>"

definition both_traits :: type_traits where
  "both_traits =
     no_traits\<lparr>CustomResettable := True, CustomClearable := True, is_move_assignable := True,
       is_copy_assignable := True, Constructable := (\<lambda>a. a = No_args),
       is_trivially_move_constructible := True, is_move_constructible := True,
       is_copy_constructible := True, local_returnable := True\<rparr>"

text \<open>
  \<open>struct handle { handle(std::nullptr_t); handle(const handle&); handle&
  operator=(const handle&); }\<close> is assignable, and of the five constructions it has
  the one from \<open>nullptr\<close>.
  \<open>struct sealed { sealed(const sealed&) = delete; sealed& operator=(const sealed&); }\<close>
  is assignable and has no constructor to call.
\<close>

definition handle_traits :: type_traits where
  "handle_traits =
     no_traits\<lparr>is_move_assignable := True, is_copy_assignable := True,
       Constructable := (\<lambda>a. a = Nullptr_t),
       is_move_constructible := True, is_copy_constructible := True,
       local_returnable := True\<rparr>"

definition sealed_traits :: type_traits where
  "sealed_traits = no_traits\<lparr>is_move_assignable := True, is_copy_assignable := True\<rparr>"

text \<open>
  \<open>struct lvalue_only { lvalue_only(); lvalue_only& operator=(const lvalue_only&);
  lvalue_only& operator=(lvalue_only&&) = delete; }\<close> can be assigned from an lvalue and
  not from an rvalue, and has a default constructor; its copy constructor is deleted with
  the declared move assignment. \<open>lvalue_only_sealed\<close> is the same with its default
  constructor deleted.
\<close>

definition lvalue_only_traits :: type_traits where
  "lvalue_only_traits =
     no_traits\<lparr>is_copy_assignable := True, Constructable := (\<lambda>a. a = No_args)\<rparr>"

definition lvalue_only_sealed_traits :: type_traits where
  "lvalue_only_sealed_traits = no_traits\<lparr>is_copy_assignable := True\<rparr>"

text \<open>
  \<open>struct range { int lo, hi; range(int, int); }\<close>: its copy and move constructors
  and assignments are the implicit, trivial ones; it has no default constructor and no
  constructor with one argument.
  \<open>struct tagged { const int id; tagged(int, int); }\<close> has the same constructors and,
  for its const member, no assignment.
\<close>

definition range_traits :: type_traits where
  "range_traits =
     no_traits\<lparr>is_move_assignable := True, is_copy_assignable := True,
       is_trivially_move_constructible := True, is_move_constructible := True,
       is_copy_constructible := True, local_returnable := True\<rparr>"

definition tagged_traits :: type_traits where
  "tagged_traits =
     no_traits\<lparr>is_trivially_move_constructible := True, is_move_constructible := True,
       is_copy_constructible := True, local_returnable := True\<rparr>"

text \<open>
  \<open>struct pinned { pinned(const pinned&); pinned(pinned&&) = delete; void reset(); }\<close>
  can be copied and not moved, and a local of it cannot be returned: the return selects
  the deleted move constructor.
  \<open>struct cv_copied { cv_copied(const volatile cv_copied&); void reset(); }\<close> can be
  copied and not moved either, for its constructor does not bind to an rvalue; the
  return of a local finds no constructor for the rvalue and falls back to the copy.
\<close>

definition pinned_traits :: type_traits where
  "pinned_traits = no_traits\<lparr>CustomResettable := True, is_copy_constructible := True\<rparr>"

definition cv_copied_traits :: type_traits where
  "cv_copied_traits =
     no_traits\<lparr>CustomResettable := True, is_move_assignable := True,
       is_copy_assignable := True, is_copy_constructible := True, local_returnable := True\<rparr>"

definition marking_ops :: "int type_ops" where
  "marking_ops =
     \<lparr>op_zero = 0,
      op_reset = (\<lambda>_. - 1),
      op_clear = (\<lambda>_. - 2),
      op_construct = (\<lambda>a. case a of No_args \<Rightarrow> 10 | Nullptr_t \<Rightarrow> 11 | Nullopt_t \<Rightarrow> 12
                             | Int8_t \<Rightarrow> 13 | Uint8_t \<Rightarrow> 14),
      op_assign = (\<lambda>ref x. x),
      op_move_construct = (\<lambda>v. (v, - 3)),
      op_copy_construct = (\<lambda>v. v)\<rparr>"

text \<open>The operations of a trivially copyable type: moving and copying leave the source as
  it is.\<close>

definition trivial_ops :: "int type_ops" where
  "trivial_ops = marking_ops\<lparr>op_move_construct := (\<lambda>v. (v, v))\<rparr>"

section \<open>Properties\<close>

subsection \<open>Offsets\<close>

lemma signed_wrap:
  fixes x M :: int
  assumes "0 < M"
  shows "(x + M) mod (2 * M) - M =
         (if x mod (2 * M) < M then x mod (2 * M) else x mod (2 * M) - 2 * M)"
proof -
  define r where "r = x mod (2 * M)"
  have r: "0 \<le> r" "r < 2 * M" using assms by (simp_all add: r_def)
  have e: "(x + M) mod (2 * M) = (r + M) mod (2 * M)"
    unfolding r_def by (simp add: mod_add_left_eq)
  show ?thesis
  proof (cases "r < M")
    case True
    then have "(r + M) mod (2 * M) = r + M" using r by simp
    with True e show ?thesis by (simp add: r_def)
  next
    case False
    have "(r + M) mod (2 * M) = (r - M + 1 * (2 * M)) mod (2 * M)" by (simp add: algebra_simps)
    also have "\<dots> = (r - M) mod (2 * M)" by (rule mod_mult_self1)
    also have "\<dots> = r - M" using False r by simp
    finally show ?thesis using False e by (simp add: r_def)
  qed
qed

lemma ucast_of_nat_64_32: "(ucast (of_nat n :: 64 word) :: 32 word) = of_nat n"
  by (simp add: unsigned_of_nat word_of_nat_eq_iff)

lemma sint_of_nat_32:
  "sint (of_nat n :: 32 word) =
     (if int n mod 2 ^ 32 < 2 ^ 31 then int n mod 2 ^ 32 else int n mod 2 ^ 32 - 2 ^ 32)"
proof -
  have p: "(2::int) * 2 ^ 31 = 2 ^ 32" by simp
  have a: "sint (of_nat n :: 32 word) = (int n + 2 ^ 31) mod 2 ^ 32 - 2 ^ 31"
    using int_word_sint [where 'a=32, of "int n"] by simp
  have b: "(int n + 2 ^ 31) mod (2 * 2 ^ 31) - 2 ^ 31 =
     (if int n mod (2 * 2 ^ 31) < 2 ^ 31 then int n mod (2 * 2 ^ 31)
      else int n mod (2 * 2 ^ 31) - 2 * 2 ^ 31)"
    by (rule signed_wrap) simp
  show ?thesis using a b unfolding p by (simp only:)
qed

lemma make_offset_of_nat: "make_offset ref = of_nat ref"
  by (simp add: make_offset_def member_address_def make_null_def ucast_of_nat_64_32)

lemma sint_make_offset:
  "sint (make_offset ref) =
     (if int ref mod 2 ^ 32 < 2 ^ 31 then int ref mod 2 ^ 32 else int ref mod 2 ^ 32 - 2 ^ 32)"
  by (simp only: make_offset_of_nat sint_of_nat_32)

lemma sint_make_offset_small:
  assumes "ref < 2 ^ 31"
  shows "sint (make_offset ref) = int ref"
proof -
  have "int ref < 2 ^ 31" using assms by (simp add: of_nat_less_iff [of ref "2 ^ 31", symmetric] del: of_nat_less_iff)
  then have "int ref mod 2 ^ 32 = int ref" by simp
  with \<open>int ref < 2 ^ 31\<close> show ?thesis by (simp only: sint_make_offset if_True)
qed

text \<open>
  Claim C10. \<open>make_offset\<close> returns a signed 32-bit integer obtained by truncating the
  64-bit address of the member formed through a null base. For a member whose byte
  offset fits a signed 32-bit integer the result is that offset; otherwise it is the
  offset reduced modulo \<open>2^32\<close> and read as a signed 32-bit integer.
\<close>

theorem make_offset_truncates:
  "make_offset ref = ucast (of_nat ref :: uint64_t) \<and>
   (ref < 2 ^ 31 \<longrightarrow> sint (make_offset ref) = int ref) \<and>
   (\<not> ref < 2 ^ 31 \<longrightarrow>
      sint (make_offset ref) =
        (let r = int ref mod 2 ^ 32 in if r < 2 ^ 31 then r else r - 2 ^ 32))"
  using sint_make_offset_small [of ref] sint_make_offset [of ref]
  by (simp add: Let_def make_offset_def member_address_def make_null_def)

theorem make_offset_truncates_witness:
  "(40::nat) < 2 ^ 31 \<and> sint (make_offset 40) = 40 \<and>
   \<not> (3000000000::nat) < 2 ^ 31 \<and> sint (make_offset 3000000000) = - 1294967296"
  using make_offset_truncates [of 40] make_offset_truncates [of 3000000000]
  by (simp add: Let_def)

lemma impl_is_const_underlying_pointer:
  "impl_is_const_underlying (Val (Q False False (Ptr B))) = std_is_const B"
proof (cases B)
  case (Q c v k)
  then show ?thesis by (cases c) simp_all
next
  case (Function R Ps)
  then show ?thesis by simp
qed

lemma impl_is_const_underlying_lref:
  "impl_is_const_underlying (LRef B) = std_is_const B"
proof (cases B)
  case (Q c v k)
  then show ?thesis by (cases c) simp_all
next
  case (Function R Ps)
  then show ?thesis by simp
qed

lemma std_is_const_add_const: "std_is_const (std_add_const T) = (\<not> std_is_function T)"
  by (cases T) simp_all

lemma std_is_const_remove_const: "\<not> std_is_const (std_remove_const T)"
  by (cases T) simp_all

lemma std_is_void_add_const: "std_is_void (std_add_const T) = std_is_void T"
  by (cases T rule: std_is_void.cases) simp_all

lemma std_is_void_remove_const: "std_is_void (std_remove_const T) = std_is_void T"
  by (cases T rule: std_is_void.cases) simp_all

lemma scast_make_offset_small:
  assumes "ref < 2 ^ 31"
  shows "(scast (make_offset ref) :: uint64_t) = of_nat ref"
  by (simp add: scast_eq sint_make_offset_small [OF assms])

lemma carry_const_t_pointer:
  "carry_const_t (LRef (Q False False (Ptr B))) (Val (Q False False (Ptr T))) =
     Inr (Val (Q False False (Ptr (if std_is_const B then std_add_const T else std_remove_const T))))"
  by (simp add: carry_const_t_def make_const_t_def make_mutable_t_def is_const_underlying_v_def
      decay_ptr_def std_remove_cvref_def impl_is_const_underlying_pointer)

lemma ptr_at_eq:
  "ptr_at T base off =
     Inr \<lparr>pointee = (if std_is_const (pointee base) then std_add_const T else std_remove_const T),
          address = address base + scast off\<rparr>"
  by (simp add: ptr_at_def carry_const_def carry_const_t_pointer)

lemma ref_at_eq:
  "ref_at T base off =
     (if std_is_void T then Inl Indirection_through_void
      else Inr \<lparr>referred = (if std_is_const (pointee base) then std_add_const T
                             else std_remove_const T),
                location = address base + scast off\<rparr>)"
  by (simp add: ref_at_def ptr_at_eq std_is_void_add_const std_is_void_remove_const)

lemma is_const_underlying_v_pointer_type:
  "is_const_underlying_v (pointer_type p) = std_is_const (pointee p)"
  by (simp add: is_const_underlying_v_def pointer_type_def decay_ptr_def std_remove_cvref_def
      impl_is_const_underlying_pointer)

text \<open>
  Claim C6, amended. For every member whose byte offset is below \<open>2^31\<close>,
  \<open>make_offset\<close> returns that offset. For every base pointer, offset and target type,
  \<open>ptr_at\<close> yields a pointer at the address of the base plus the sign-extended offset
  (in 64-bit arithmetic) to the target type, with \<open>const\<close> added if the pointee of the
  base is const and removed if it is not. So for an object type or \<open>void\<close> as the
  target the result is const exactly when the base is; for a function type it never is.
  \<open>ref_at\<close> designates what is at that address, for every target but \<open>void\<close>,
  where it is ill-formed. With the offset of a member below \<open>2^31\<close>, the address is the
  address of the member in the object at the base.
\<close>

theorem offset_access:
  "(ref < 2 ^ 31 \<longrightarrow> sint (make_offset ref) = int ref) \<and>
   ptr_at T base off =
     Inr \<lparr>pointee = (if std_is_const (pointee base) then std_add_const T else std_remove_const T),
          address = address base + scast off\<rparr> \<and>
   (is_const_underlying_v
       (pointer_type
          \<lparr>pointee = (if std_is_const (pointee base) then std_add_const T else std_remove_const T),
           address = address base + scast off\<rparr>) =
     (is_const_underlying_v (pointer_type base) \<and> \<not> std_is_function T)) \<and>
   (std_is_void T \<longrightarrow> ref_at T base off = Inl Indirection_through_void) \<and>
   (\<not> std_is_void T \<longrightarrow>
      ref_at T base off =
        Inr \<lparr>referred = (if std_is_const (pointee base) then std_add_const T
                           else std_remove_const T),
             location = address base + scast off\<rparr>) \<and>
   (ref < 2 ^ 31 \<and> \<not> std_is_void T \<longrightarrow>
      ref_at T base (make_offset ref) =
        Inr \<lparr>referred = (if std_is_const (pointee base) then std_add_const T
                           else std_remove_const T),
             location = member_address (address base) ref\<rparr>)"
  using sint_make_offset_small [of ref] scast_make_offset_small [of ref]
  by (simp add: ptr_at_eq ref_at_eq is_const_underlying_v_pointer_type member_address_def
      std_is_const_add_const std_is_const_remove_const)

theorem offset_access_witness:
  "(24::nat) < 2 ^ 31 \<and> sint (make_offset 24) = 24 \<and>
   \<not> std_is_void (Q False False (Named ''int'')) \<and>
   ptr_at (Q False False (Named ''int''))
       \<lparr>pointee = Q True False (Named ''S''), address = 4096\<rparr> (make_offset 24) =
     Inr \<lparr>pointee = Q True False (Named ''int''), address = 4120\<rparr> \<and>
   ref_at (Q False False (Named ''int''))
       \<lparr>pointee = Q True False (Named ''S''), address = 4096\<rparr> (make_offset 24) =
     Inr \<lparr>referred = Q True False (Named ''int''), location = 4120\<rparr> \<and>
   std_is_void (Q False False Void) \<and>
   ref_at (Q False False Void)
       \<lparr>pointee = Q True False (Named ''S''), address = 4096\<rparr> (make_offset 24) =
     Inl Indirection_through_void"
  using offset_access [of 24 "Q False False (Named ''int'')"
      "\<lparr>pointee = Q True False (Named ''S''), address = 4096\<rparr>" "make_offset 24"]
    offset_access [of 24 "Q False False Void"
      "\<lparr>pointee = Q True False (Named ''S''), address = 4096\<rparr>" "make_offset 24"]
  by (simp add: member_address_def scast_make_offset_small)

text \<open>
  The claim as stated fails in three places. For a member at byte offset \<open>2^31\<close> the
  result of \<open>make_offset\<close> is \<open>-2^31\<close>. With the target \<open>void\<close>, which is the
  default, \<open>ref_at\<close> yields nothing. With the function type \<open>void()\<close> as the target
  and a const base, the pointer that \<open>ptr_at\<close> yields is not const.
\<close>

theorem offset_access_counterexample:
  "sint (make_offset 2147483648) = - 2147483648 \<and>
   sint (make_offset 2147483648) \<noteq> int 2147483648 \<and>
   ref_at (Q False False Void) \<lparr>pointee = Q False False (Named ''S''), address = 4096\<rparr> 8 =
     Inl Indirection_through_void \<and>
   ptr_at (Function (Val (Q False False Void)) [])
       \<lparr>pointee = Q True False (Named ''S''), address = 4096\<rparr> 8 =
     Inr \<lparr>pointee = Function (Val (Q False False Void)) [], address = 4104\<rparr> \<and>
   is_const_underlying_v (pointer_type \<lparr>pointee = Q True False (Named ''S''), address = 4096\<rparr>) \<and>
   \<not> is_const_underlying_v
       (pointer_type \<lparr>pointee = Function (Val (Q False False Void)) [], address = 4104\<rparr>)"
  by (simp add: sint_make_offset ptr_at_eq ref_at_eq is_const_underlying_v_pointer_type)

subsection \<open>Const-qualifier transforms\<close>

lemma pointer_cases:
  assumes "std_is_pointer (std_remove_cvref T)"
  obtains p where "std_remove_cvref T = Val (Q False False (Ptr p))"
  using assms
  by (cases "std_remove_cvref T" rule: std_is_pointer.cases)
     (auto simp add: std_remove_cvref_def elim: std_remove_cv.elims)

lemma const_transforms_pointer:
  assumes "std_remove_cvref T = Val (Q False False (Ptr p))"
  shows "decay_ptr T = Val (Q False False (Ptr p))"
    and "make_const_t T = Inr (Val (Q False False (Ptr (std_add_const p))))"
    and "make_mutable_t T = Inr (Val (Q False False (Ptr (std_remove_const p))))"
  using assms by (simp_all add: make_const_t_def make_mutable_t_def decay_ptr_def)

lemma const_transforms_lref:
  assumes "\<not> std_is_pointer (std_remove_cvref (LRef q))"
  shows "decay_ptr (LRef q) = LRef q"
    and "make_const_t (LRef q) = Inr (LRef (std_add_const q))"
    and "make_mutable_t (LRef q) = Inr (LRef (std_remove_const q))"
  using assms by (simp_all add: make_const_t_def make_mutable_t_def decay_ptr_def)

lemma std_remove_cv_add_const: "std_remove_cv (std_add_const q) = std_remove_cv q"
  by (cases q) simp_all

lemma std_remove_cv_remove_const: "std_remove_cv (std_remove_const q) = std_remove_cv q"
  by (cases q) simp_all

lemma std_remove_const_add_const: "std_remove_const (std_add_const q) = std_remove_const q"
  by (cases q) simp_all

lemma std_add_const_add_const: "std_add_const (std_add_const q) = std_add_const q"
  by (cases q) simp_all

lemma std_remove_cvref_unqualified_pointer:
  "std_remove_cvref (Val (Q False False (Ptr p))) = Val (Q False False (Ptr p))"
  by (simp add: std_remove_cvref_def)

lemma const_round_trip_pointer:
  assumes "std_remove_cvref T = Val (Q False False (Ptr p))"
  shows "make_const_t T = Inr (const_form (decay_ptr T))"
    and "make_mutable_t T = Inr (non_const_form (decay_ptr T))"
    and "then_t (make_const_t T) make_mutable_t = Inr (Val (Q False False (Ptr (std_remove_const p))))"
    and "then_t (make_const_t T) make_const_t = make_const_t T"
  by (simp_all add: const_transforms_pointer [OF assms] then_t_def
      const_transforms_pointer [OF std_remove_cvref_unqualified_pointer]
      std_remove_const_add_const std_add_const_add_const)

lemma const_round_trip_lref:
  assumes "\<not> std_is_pointer (std_remove_cvref (LRef q))"
  shows "make_const_t (LRef q) = Inr (const_form (decay_ptr (LRef q)))"
    and "make_mutable_t (LRef q) = Inr (non_const_form (decay_ptr (LRef q)))"
    and "then_t (make_const_t (LRef q)) make_mutable_t = Inr (LRef (std_remove_const q))"
    and "then_t (make_const_t (LRef q)) make_const_t = make_const_t (LRef q)"
proof -
  have a: "\<not> std_is_pointer (std_remove_cvref (LRef (std_add_const q)))"
    using assms by (simp add: std_remove_cvref_def std_remove_cv_add_const)
  show "make_const_t (LRef q) = Inr (const_form (decay_ptr (LRef q)))"
    and "make_mutable_t (LRef q) = Inr (non_const_form (decay_ptr (LRef q)))"
    by (simp_all add: const_transforms_lref [OF assms])
  show "then_t (make_const_t (LRef q)) make_mutable_t = Inr (LRef (std_remove_const q))"
    by (simp add: const_transforms_lref [OF assms] const_transforms_lref [OF a] then_t_def
        std_remove_const_add_const)
  show "then_t (make_const_t (LRef q)) make_const_t = make_const_t (LRef q)"
    by (simp add: const_transforms_lref [OF assms] const_transforms_lref [OF a] then_t_def
        std_add_const_add_const)
qed

lemma const_transforms_undefined:
  assumes "\<not> is_lvalue_reference_or_pointer T"
  shows "make_const_t T = Inl No_type_member" and "make_mutable_t T = Inl No_type_member"
proof -
  have np: "\<not> std_is_pointer (std_remove_cvref T)" and nl: "\<And>q. T \<noteq> LRef q"
    using assms by (auto simp add: is_lvalue_reference_or_pointer_def)
  have d: "decay_ptr T = T" using np by (simp add: decay_ptr_def)
  have "impl_make_const T = Inl No_type_member \<and> impl_make_mutable T = Inl No_type_member"
  proof (cases T rule: impl_make_const.cases)
    case (1 q)
    with nl show ?thesis by blast
  next
    case (2 p)
    with np show ?thesis by (simp add: std_remove_cvref_def)
  qed simp_all
  then show "make_const_t T = Inl No_type_member" and "make_mutable_t T = Inl No_type_member"
    by (simp_all add: make_const_t_def make_mutable_t_def d)
qed

text \<open>
  Claim C5, amended. For every lvalue reference to a type that is not a pointer, add-const
  followed by remove-const yields that reference with \<open>const\<close> removed from the type
  it refers to, the non-const form of the type. For every type that is a pointer once
  its reference and cv-qualifiers are removed (a pointer, a cv-qualified pointer, a
  reference to a pointer) it yields that unqualified pointer type with \<open>const\<close>
  removed from the type it points to: the non-const form of the decayed type, which is
  the non-const form of the type itself for an unqualified pointer only. On both,
  add-const is idempotent. On every other type, rvalue references to non-pointers among
  them, both transforms are ill-formed.
\<close>

theorem const_round_trip:
  "(\<not> std_is_pointer (std_remove_cvref (LRef q)) \<longrightarrow>
      then_t (make_const_t (LRef q)) make_mutable_t = Inr (LRef (std_remove_const q)) \<and>
      then_t (make_const_t (LRef q)) make_mutable_t = Inr (non_const_form (LRef q)) \<and>
      make_const_t (LRef q) = Inr (LRef (std_add_const q))) \<and>
   (std_remove_cvref T = Val (Q False False (Ptr p)) \<longrightarrow>
      then_t (make_const_t T) make_mutable_t = Inr (Val (Q False False (Ptr (std_remove_const p)))) \<and>
      then_t (make_const_t T) make_mutable_t = Inr (non_const_form (std_remove_cvref T)) \<and>
      make_const_t T = Inr (Val (Q False False (Ptr (std_add_const p))))) \<and>
   (is_lvalue_reference_or_pointer T \<longrightarrow>
      then_t (make_const_t T) make_mutable_t = Inr (non_const_form (decay_ptr T)) \<and>
      make_mutable_t T = Inr (non_const_form (decay_ptr T)) \<and>
      make_const_t T = Inr (const_form (decay_ptr T)) \<and>
      then_t (make_const_t T) make_const_t = make_const_t T) \<and>
   (\<not> is_lvalue_reference_or_pointer T \<longrightarrow>
      make_const_t T = Inl No_type_member \<and> make_mutable_t T = Inl No_type_member)"
proof (intro conjI impI)
  assume n: "\<not> std_is_pointer (std_remove_cvref (LRef q))"
  show "then_t (make_const_t (LRef q)) make_mutable_t = Inr (LRef (std_remove_const q))"
    by (rule const_round_trip_lref [OF n])
  then show "then_t (make_const_t (LRef q)) make_mutable_t = Inr (non_const_form (LRef q))"
    by simp
  show "make_const_t (LRef q) = Inr (LRef (std_add_const q))"
    by (rule const_transforms_lref [OF n])
next
  assume e: "std_remove_cvref T = Val (Q False False (Ptr p))"
  show "then_t (make_const_t T) make_mutable_t = Inr (Val (Q False False (Ptr (std_remove_const p))))"
    by (rule const_round_trip_pointer [OF e])
  then show "then_t (make_const_t T) make_mutable_t = Inr (non_const_form (std_remove_cvref T))"
    by (simp add: e)
  show "make_const_t T = Inr (Val (Q False False (Ptr (std_add_const p))))"
    by (rule const_transforms_pointer [OF e])
next
  assume d: "is_lvalue_reference_or_pointer T"
  have "then_t (make_const_t T) make_mutable_t = Inr (non_const_form (decay_ptr T)) \<and>
      make_mutable_t T = Inr (non_const_form (decay_ptr T)) \<and>
      make_const_t T = Inr (const_form (decay_ptr T)) \<and>
      then_t (make_const_t T) make_const_t = make_const_t T"
  proof (cases "std_is_pointer (std_remove_cvref T)")
    case True
    then obtain p where e: "std_remove_cvref T = Val (Q False False (Ptr p))"
      by (rule pointer_cases)
    show ?thesis
      using const_round_trip_pointer [OF e] by (simp add: const_transforms_pointer(1) [OF e])
  next
    case False
    with d obtain q where T: "T = LRef q"
      by (cases T) (simp_all add: is_lvalue_reference_or_pointer_def)
    from False have n: "\<not> std_is_pointer (std_remove_cvref (LRef q))" by (simp add: T)
    show ?thesis
      unfolding T using const_round_trip_lref [OF n] by (simp add: const_transforms_lref(1) [OF n])
  qed
  then show "then_t (make_const_t T) make_mutable_t = Inr (non_const_form (decay_ptr T))"
    and "make_mutable_t T = Inr (non_const_form (decay_ptr T))"
    and "make_const_t T = Inr (const_form (decay_ptr T))"
    and "then_t (make_const_t T) make_const_t = make_const_t T"
    by blast+
next
  assume "\<not> is_lvalue_reference_or_pointer T"
  then show "make_const_t T = Inl No_type_member" and "make_mutable_t T = Inl No_type_member"
    by (rule const_transforms_undefined)+
qed

theorem const_round_trip_witness:
  "\<not> std_is_pointer (std_remove_cvref (LRef (Q True False (Named ''int'')))) \<and>
   then_t (make_const_t (LRef (Q True False (Named ''int'')))) make_mutable_t =
     Inr (LRef (Q False False (Named ''int''))) \<and>
   std_remove_cvref (LRef (Q True False (Ptr (Q True False (Named ''int''))))) =
     Val (Q False False (Ptr (Q True False (Named ''int'')))) \<and>
   then_t (make_const_t (LRef (Q True False (Ptr (Q True False (Named ''int'')))))) make_mutable_t =
     Inr (Val (Q False False (Ptr (Q False False (Named ''int''))))) \<and>
   is_lvalue_reference_or_pointer (LRef (Q True False (Ptr (Q True False (Named ''int''))))) \<and>
   then_t (make_const_t (LRef (Q True False (Ptr (Q True False (Named ''int'')))))) make_const_t =
     Inr (Val (Q False False (Ptr (Q True False (Named ''int''))))) \<and>
   \<not> is_lvalue_reference_or_pointer (Val (Q False False (Named ''int''))) \<and>
   make_const_t (Val (Q False False (Named ''int''))) = Inl No_type_member"
  using const_round_trip [of "Q True False (Named ''int'')"
      "LRef (Q True False (Ptr (Q True False (Named ''int''))))" "Q True False (Named ''int'')"]
    const_round_trip [of "Q True False (Named ''int'')" "Val (Q False False (Named ''int''))"
      "Q True False (Named ''int'')"]
  by (simp add: is_lvalue_reference_or_pointer_def std_remove_cvref_def make_const_t_def
      make_mutable_t_def decay_ptr_def then_t_def)

text \<open>
  The claim as stated fails at \<open>int&&\<close>, a reference type on which neither transform
  is defined, and at \<open>int*&\<close>, a reference type whose round trip is \<open>int*\<close> and not
  its own non-const form \<open>int*&\<close>.
\<close>

theorem const_round_trip_counterexample:
  "is_reference_or_pointer (RRef (Q False False (Named ''int''))) \<and>
   make_const_t (RRef (Q False False (Named ''int''))) = Inl No_type_member \<and>
   then_t (make_const_t (RRef (Q False False (Named ''int'')))) make_mutable_t = Inl No_type_member \<and>
   then_t (make_const_t (RRef (Q False False (Named ''int'')))) make_const_t = Inl No_type_member \<and>
   is_reference_or_pointer (LRef (Q False False (Ptr (Q False False (Named ''int''))))) \<and>
   then_t (make_const_t (LRef (Q False False (Ptr (Q False False (Named ''int'')))))) make_mutable_t =
     Inr (Val (Q False False (Ptr (Q False False (Named ''int''))))) \<and>
   non_const_form (LRef (Q False False (Ptr (Q False False (Named ''int''))))) =
     LRef (Q False False (Ptr (Q False False (Named ''int'')))) \<and>
   Val (Q False False (Ptr (Q False False (Named ''int'')))) \<noteq>
     LRef (Q False False (Ptr (Q False False (Named ''int''))))"
  by (simp add: is_reference_or_pointer_def make_const_t_def make_mutable_t_def decay_ptr_def
      std_remove_cvref_def then_t_def)

subsection \<open>Specialization detection\<close>

lemma is_specialization_v_iff:
  "is_specialization_v X T = (\<exists>Tx. std_remove_cvref T = Val (Q False False (Inst X Tx)))"
  unfolding is_specialization_v_def std_remove_cvref_def
  by (cases "std_remove_reference T"; cases "std_remove_reference T" rule: std_is_void.cases)
     (auto elim: impl_is_specialization_v.elims)

text \<open>
  Claim C7, amended. For every template \<open>X\<close> with type parameters,
  \<open>is_specialization_v\<close> is true for every instantiation \<open>X<...>\<close>, whatever its
  argument list, and for every cv- and reference-qualified variant of it; it is false for
  every other type, that is, every type that is not an instantiation of \<open>X\<close> once its
  reference and cv-qualifiers are removed (an instantiation of another template, a
  pointer to an instantiation, a type that is no instantiation).
\<close>

theorem is_specialization_v_detects:
  "is_specialization_v X (Val (Q c v (Inst X Tx))) \<and>
   is_specialization_v X (LRef (Q c v (Inst X Tx))) \<and>
   is_specialization_v X (RRef (Q c v (Inst X Tx))) \<and>
   (is_specialization_v X T = (\<exists>Tx'. std_remove_cvref T = Val (Q False False (Inst X Tx')))) \<and>
   (is_specialization_v X (Val (Q c v (Inst Y Tx))) = (Y = X)) \<and>
   \<not> is_specialization_v X (Val (Q c v (Ptr q))) \<and>
   \<not> is_specialization_v X (Val (Q c v (Named n))) \<and>
   \<not> is_specialization_v X (Val (Q c v Void))"
  using is_specialization_v_iff [of X T]
  by (auto simp add: is_specialization_v_def std_remove_cvref_def)

text \<open>
  The claim as stated fails: for \<open>T = X<A>\<close>, the instantiation \<open>X<B>\<close> with a
  different argument list is a different type, and detection is true for it.
\<close>

theorem is_specialization_v_counterexample:
  "Val (Q False False (Inst ''X'' [Val (Q False False (Named ''A''))])) \<noteq>
     Val (Q False False (Inst ''X'' [Val (Q False False (Named ''B''))])) \<and>
   is_specialization_v ''X'' (Val (Q False False (Inst ''X'' [Val (Q False False (Named ''A''))]))) \<and>
   is_specialization_v ''X'' (Val (Q False False (Inst ''X'' [Val (Q False False (Named ''B''))])))"
  by (simp add: is_specialization_v_def std_remove_cvref_def)

subsection \<open>Series\<close>

lemma upto_one: "[0..(1::int) - 1] = [0]"
  by (simp add: upto_rec1)

lemma upto_two_or_more: "2 \<le> N \<Longrightarrow> [0..N - 1] = 0 # 1 # [2..N - 1]"
  by (simp add: upto_rec1)

lemma make_expanded_series_eq:
  assumes "1 \<le> N" and "N = 1 \<longrightarrow> \<not> result_is_array"
  shows "make_expanded_series result_is_array N f = Inr (Array_of (map f [0..N - 1]))"
proof (cases "N = 1")
  case True
  with assms(2) show ?thesis
    by (simp add: make_expanded_series_def std_make_integer_sequence_def
        impl_make_expanded_series_def std_array_deduced_def upto_one)
next
  case False
  with assms(1) have "2 \<le> N" by simp
  then show ?thesis
    by (simp add: make_expanded_series_def std_make_integer_sequence_def
        impl_make_expanded_series_def std_array_deduced_def upto_two_or_more)
qed

lemma make_expanded_series_copy:
  "make_expanded_series True 1 f = Inr (Copy_of (f 0))"
  by (simp add: make_expanded_series_def std_make_integer_sequence_def
      impl_make_expanded_series_def std_array_deduced_def upto_one)

text \<open>
  Claim C3, amended. For every count \<open>N\<close> of at least one and every callable \<open>f\<close>
  (for \<open>N = 1\<close>: every callable whose result is not itself a \<open>std::array\<close>),
  \<open>make_expanded_series<N>(f)\<close> yields the sequence \<open>f(0), ..., f(N - 1)\<close>: its
  length is \<open>N\<close> and its element at every position \<open>i\<close> from \<open>0\<close> to \<open>N - 1\<close>
  is \<open>f(i)\<close>.
\<close>

theorem make_expanded_series_elements:
  assumes "1 \<le> N" and "0 \<le> i" and "i < N" and "N = 1 \<longrightarrow> \<not> result_is_array"
  shows "make_expanded_series result_is_array N f = Inr (Array_of (map f [0..N - 1])) \<and>
         int (length (map f [0..N - 1])) = N \<and>
         map f [0..N - 1] ! nat i = f i"
  using assms by (simp add: make_expanded_series_eq)

theorem make_expanded_series_elements_witness:
  "(1::int) \<le> 3 \<and> (0::int) \<le> 2 \<and> (2::int) < 3 \<and>
   make_expanded_series True 3 (\<lambda>i. [i, 10 * i]) = Inr (Array_of [[0, 0], [1, 10], [2, 20::int]]) \<and>
   [[0, 0], [1, 10], [2, 20::int]] ! nat 2 = [2, 10 * 2] \<and>
   (1::int) \<le> 1 \<and> (0::int) \<le> 0 \<and> (0::int) < 1 \<and>
   make_expanded_series False 1 (\<lambda>i. 10 * i) = Inr (Array_of [0::int])"
  using make_expanded_series_elements [of 3 2 True "\<lambda>i. [i, 10 * i]"]
    make_expanded_series_elements [of 1 0 False "\<lambda>i. 10 * i"]
  by (simp add: upto_rec1)

text \<open>
  The claim as stated fails at \<open>N = 0\<close>: the pack is empty, \<open>std::array{ }\<close> has
  nothing to deduce its element type from, and no sequence comes out, the empty one
  included. It fails at \<open>N = 1\<close> for a callable that returns a \<open>std::array\<close>, here
  one of two integers: what comes out is that array, a sequence of two integers, and not
  a sequence of length one that holds it.
\<close>

theorem make_expanded_series_counterexample:
  "make_expanded_series False 0 (\<lambda>i. 10 * i :: int) = Inl Deduction_failed \<and>
   make_expanded_series False 0 (\<lambda>i. 10 * i :: int) \<noteq> Inr (Array_of []) \<and>
   make_expanded_series True 1 (\<lambda>i. [i, 10 * i + 7]) = Inr (Copy_of [0, 7::int]) \<and>
   make_expanded_series True 1 (\<lambda>i. [i, 10 * i + 7]) \<noteq> Inr (Array_of [[0, 7::int]])"
  by (simp add: make_expanded_series_def std_make_integer_sequence_def
      impl_make_expanded_series_def std_array_deduced_def upto_rec1)

subsection \<open>Resetting and possessing values\<close>

lemma find_construction_priority:
  "find P construction_priority =
     (if P No_args then Some No_args
      else if P Nullptr_t then Some Nullptr_t
      else if P Nullopt_t then Some Nullopt_t
      else if P Int8_t then Some Int8_t
      else if P Uint8_t then Some Uint8_t
      else None)"
  by (simp add: construction_priority_def)

lemma null_value_branch_assignable:
  assumes "\<not> is_arithmetic T" "\<not> is_pointer T" "\<not> CustomResettable T" "\<not> CustomClearable T"
    and "is_move_assignable T \<or> is_copy_assignable T"
  shows "null_value_branch T =
           (case find (Constructable T) construction_priority of
              None \<Rightarrow> Inr None
            | Some a \<Rightarrow> assign_constructed T a)"
  using assms by (simp add: null_value_branch_def find_construction_priority)

lemma Nullable_eq:
  "Nullable T =
     (case null_value T ops ref of Inl e \<Rightarrow> Inl e | Inr r \<Rightarrow> Inr (snd r = Some True))"
  by (simp add: Nullable_def null_value_return_type_def null_value_def
      split: sum.splits option.splits)

text \<open>
  Claim C1, amended. For a type that is not const where it is arithmetic or a pointer,
  and that can be assigned from an rvalue where it reaches the assignment of a
  construction, \<open>null_value\<close> dispatches by this priority: an arithmetic type is
  assigned zero; else a pointer type is assigned null; else a type with \<open>reset()\<close> has
  it called, else a type with \<open>clear()\<close> has it called; else a move-assignable type is
  assigned from the first construction it supports, in the order default, from
  \<open>nullptr\<close>, from \<open>std::nullopt\<close>, from a zero \<open>int8_t\<close>, from a zero
  \<open>uint8_t\<close>. Every branch that applies returns \<open>true\<close>; when none applies
  (no operation, or an assignable type with none of the constructions) nothing is done
  and \<open>Nullable\<close> is false. For a const arithmetic or pointer type the call, and
  \<open>Nullable\<close> with it, does not compile.
\<close>

theorem null_value_dispatch:
  "(is_arithmetic T \<and> \<not> is_const T \<longrightarrow> null_value T ops ref = Inr (op_zero ops, Some True)) \<and>
   (\<not> is_arithmetic T \<and> is_pointer T \<and> \<not> is_const T \<longrightarrow>
      null_value T ops ref = Inr (op_zero ops, Some True)) \<and>
   ((is_arithmetic T \<or> is_pointer T) \<and> is_const T \<longrightarrow>
      null_value T ops ref = Inl Assignment_to_const \<and> Nullable T = Inl Assignment_to_const) \<and>
   (\<not> is_arithmetic T \<and> \<not> is_pointer T \<and> CustomResettable T \<longrightarrow>
      null_value T ops ref = Inr (op_reset ops ref, Some True)) \<and>
   (\<not> is_arithmetic T \<and> \<not> is_pointer T \<and> \<not> CustomResettable T \<and> CustomClearable T \<longrightarrow>
      null_value T ops ref = Inr (op_clear ops ref, Some True)) \<and>
   (\<not> is_arithmetic T \<and> \<not> is_pointer T \<and> \<not> CustomResettable T \<and> \<not> CustomClearable T \<and>
    is_move_assignable T \<longrightarrow>
      null_value T ops ref =
        (case find (Constructable T) construction_priority of
           Some a \<Rightarrow> Inr (op_assign ops ref (op_construct ops a), Some True)
         | None \<Rightarrow> Inr (ref, None))) \<and>
   (\<not> is_arithmetic T \<and> \<not> is_pointer T \<and> \<not> CustomResettable T \<and> \<not> CustomClearable T \<and>
    \<not> is_move_assignable T \<and> is_copy_assignable T \<and>
    find (Constructable T) construction_priority = None \<longrightarrow>
      null_value T ops ref = Inr (ref, None)) \<and>
   (\<not> is_arithmetic T \<and> \<not> is_pointer T \<and> \<not> CustomResettable T \<and> \<not> CustomClearable T \<and>
    \<not> (is_move_assignable T \<or> is_copy_assignable T) \<longrightarrow>
      null_value T ops ref = Inr (ref, None)) \<and>
   (Nullable T =
      (case null_value T ops ref of Inl e \<Rightarrow> Inl e | Inr r \<Rightarrow> Inr (snd r = Some True)))"
proof (intro conjI impI)
  assume a: "\<not> is_arithmetic T \<and> \<not> is_pointer T \<and> \<not> CustomResettable T \<and> \<not> CustomClearable T \<and>
    is_move_assignable T"
  then have "null_value_branch T =
      (case find (Constructable T) construction_priority of
         None \<Rightarrow> Inr None
       | Some a \<Rightarrow> assign_constructed T a)"
    by (intro null_value_branch_assignable) simp_all
  with a show "null_value T ops ref =
        (case find (Constructable T) construction_priority of
           Some a \<Rightarrow> Inr (op_assign ops ref (op_construct ops a), Some True)
         | None \<Rightarrow> Inr (ref, None))"
    by (simp add: null_value_def assign_constructed_def split: option.splits)
next
  assume a: "\<not> is_arithmetic T \<and> \<not> is_pointer T \<and> \<not> CustomResettable T \<and> \<not> CustomClearable T \<and>
    \<not> is_move_assignable T \<and> is_copy_assignable T \<and>
    find (Constructable T) construction_priority = None"
  then have "null_value_branch T =
      (case find (Constructable T) construction_priority of
         None \<Rightarrow> Inr None
       | Some a \<Rightarrow> assign_constructed T a)"
    by (intro null_value_branch_assignable) simp_all
  with a show "null_value T ops ref = Inr (ref, None)"
    by (simp add: null_value_def)
next
  show "Nullable T =
      (case null_value T ops ref of Inl e \<Rightarrow> Inl e | Inr r \<Rightarrow> Inr (snd r = Some True))"
    by (rule Nullable_eq)
next
  assume "(is_arithmetic T \<or> is_pointer T) \<and> is_const T"
  then show "Nullable T = Inl Assignment_to_const"
    by (auto simp add: Nullable_def null_value_return_type_def null_value_branch_def)
qed (auto simp add: null_value_def null_value_branch_def)

lemmas example_traits_defs =
  no_traits_def int_traits_def const_int_traits_def char_pointer_traits_def
  const_char_pointer_traits_def unique_ptr_traits_def vector_traits_def both_traits_def
  handle_traits_def sealed_traits_def lvalue_only_traits_def lvalue_only_sealed_traits_def
  range_traits_def tagged_traits_def pinned_traits_def cv_copied_traits_def

lemmas null_value_eval =
  null_value_def null_value_branch_def assign_constructed_def Nullable_def
  null_value_return_type_def is_arithmetic_def construction_priority_def

theorem null_value_dispatch_witness:
  "(is_arithmetic int_traits \<and> \<not> is_const int_traits) \<and>
   null_value int_traits marking_ops 7 = Inr (0, Some True) \<and>
   (\<not> is_arithmetic char_pointer_traits \<and> is_pointer char_pointer_traits \<and>
    \<not> is_const char_pointer_traits) \<and>
   null_value char_pointer_traits marking_ops 7 = Inr (0, Some True) \<and>
   ((is_arithmetic const_int_traits \<or> is_pointer const_int_traits) \<and> is_const const_int_traits) \<and>
   null_value const_int_traits marking_ops 7 = Inl Assignment_to_const \<and>
   (\<not> is_arithmetic unique_ptr_traits \<and> \<not> is_pointer unique_ptr_traits \<and>
    CustomResettable unique_ptr_traits) \<and>
   null_value unique_ptr_traits marking_ops 7 = Inr (- 1, Some True) \<and>
   (\<not> is_arithmetic vector_traits \<and> \<not> is_pointer vector_traits \<and>
    \<not> CustomResettable vector_traits \<and> CustomClearable vector_traits) \<and>
   null_value vector_traits marking_ops 7 = Inr (- 2, Some True) \<and>
   (\<not> is_arithmetic handle_traits \<and> \<not> is_pointer handle_traits \<and>
    \<not> CustomResettable handle_traits \<and> \<not> CustomClearable handle_traits \<and>
    is_move_assignable handle_traits) \<and>
   null_value handle_traits marking_ops 7 = Inr (11, Some True) \<and>
   Nullable handle_traits = Inr True \<and>
   null_value sealed_traits marking_ops 7 = Inr (7, None) \<and>
   (\<not> is_arithmetic lvalue_only_sealed_traits \<and> \<not> is_pointer lvalue_only_sealed_traits \<and>
    \<not> CustomResettable lvalue_only_sealed_traits \<and> \<not> CustomClearable lvalue_only_sealed_traits \<and>
    \<not> is_move_assignable lvalue_only_sealed_traits \<and> is_copy_assignable lvalue_only_sealed_traits \<and>
    find (Constructable lvalue_only_sealed_traits) construction_priority = None) \<and>
   null_value lvalue_only_sealed_traits marking_ops 7 = Inr (7, None) \<and>
   (\<not> is_arithmetic tagged_traits \<and> \<not> is_pointer tagged_traits \<and>
    \<not> CustomResettable tagged_traits \<and> \<not> CustomClearable tagged_traits \<and>
    \<not> (is_move_assignable tagged_traits \<or> is_copy_assignable tagged_traits)) \<and>
   null_value tagged_traits marking_ops 7 = Inr (7, None) \<and> Nullable tagged_traits = Inr False"
  using null_value_dispatch [of int_traits marking_ops 7]
    null_value_dispatch [of char_pointer_traits marking_ops 7]
    null_value_dispatch [of const_int_traits marking_ops 7]
    null_value_dispatch [of unique_ptr_traits marking_ops 7]
    null_value_dispatch [of vector_traits marking_ops 7]
    null_value_dispatch [of handle_traits marking_ops 7]
    null_value_dispatch [of sealed_traits marking_ops 7]
    null_value_dispatch [of lvalue_only_sealed_traits marking_ops 7]
    null_value_dispatch [of tagged_traits marking_ops 7]
  by (simp add: example_traits_defs is_arithmetic_def marking_ops_def construction_priority_def)

text \<open>
  The claim as stated fails at \<open>const int\<close> and at \<open>char* const\<close>, an arithmetic and
  a pointer type to which nothing can be assigned, and at \<open>lvalue_only\<close>, a
  copy-assignable type with a default constructor that cannot be assigned \<open>T()\<close>: none
  is assigned anything, no call reports success, and \<open>Nullable\<close> is not false but
  ill-formed.
\<close>

theorem null_value_dispatch_counterexample:
  "is_arithmetic const_int_traits \<and>
   null_value const_int_traits marking_ops 7 = Inl Assignment_to_const \<and>
   Nullable const_int_traits = Inl Assignment_to_const \<and>
   is_pointer const_char_pointer_traits \<and>
   null_value const_char_pointer_traits marking_ops 7 = Inl Assignment_to_const \<and>
   is_copy_assignable lvalue_only_traits \<and> Constructable lvalue_only_traits No_args \<and>
   null_value lvalue_only_traits marking_ops 7 = Inl No_assignment_from_rvalue \<and>
   Nullable lvalue_only_traits = Inl No_assignment_from_rvalue"
  by (simp add: null_value_eval example_traits_defs)

text \<open>
  Claim C9. For a type that is neither arithmetic nor a pointer and has both
  \<open>reset()\<close> and \<open>clear()\<close>, \<open>null_value\<close> selects the call of \<open>reset()\<close>:
  the object is what \<open>reset()\<close> leaves, whatever \<open>clear()\<close> would do.
\<close>

theorem null_value_reset_before_clear:
  assumes "\<not> is_arithmetic T" and "\<not> is_pointer T" and "CustomResettable T" and "CustomClearable T"
  shows "null_value_branch T = Inr (Some Call_reset) \<and>
         null_value T ops ref = Inr (op_reset ops ref, Some True) \<and>
         null_value T (ops\<lparr>op_clear := c\<rparr>) ref = null_value T ops ref"
  using assms by (simp add: null_value_def null_value_branch_def)

theorem null_value_reset_before_clear_witness:
  "\<not> is_arithmetic both_traits \<and> \<not> is_pointer both_traits \<and> CustomResettable both_traits \<and>
   CustomClearable both_traits \<and> null_value_branch both_traits = Inr (Some Call_reset) \<and>
   null_value both_traits marking_ops 7 = Inr (- 1, Some True)"
  using null_value_reset_before_clear [of both_traits marking_ops 7]
  by (simp add: example_traits_defs is_arithmetic_def marking_ops_def)

lemma possess_value_dispatch:
  "(is_integral T \<or> is_floating_point T \<or> is_pointer T \<longrightarrow>
      possess_value T ops v =
        (if is_const T then Inl Assignment_to_const else Inr (Prvalue v, op_zero ops))) \<and>
   (\<not> (is_integral T \<or> is_floating_point T \<or> is_pointer T) \<and>
    is_trivially_move_constructible T \<longrightarrow>
      possess_value T ops v =
        (case null_value T ops (snd (op_move_construct ops v)) of
           Inl e \<Rightarrow> Inl e
         | Inr r \<Rightarrow> Inr (Prvalue (fst (op_move_construct ops v)), fst r))) \<and>
   (\<not> (is_integral T \<or> is_floating_point T \<or> is_pointer T) \<and>
    \<not> is_trivially_move_constructible T \<and> is_move_constructible T \<longrightarrow>
      possess_value T ops v = Inr (Xvalue_of_argument, v) \<and>
      materialize ops (Xvalue_of_argument, v) = Some (op_move_construct ops v)) \<and>
   (\<not> (is_integral T \<or> is_floating_point T \<or> is_pointer T) \<and>
    \<not> is_trivially_move_constructible T \<and> \<not> is_move_constructible T \<and>
    is_copy_constructible T \<longrightarrow>
      possess_value T ops v =
        (case null_value T ops v of
           Inl e \<Rightarrow> Inl e
         | Inr r \<Rightarrow>
             if local_returnable T then Inr (Prvalue (op_copy_construct ops v), fst r)
             else Inl Return_ill_formed)) \<and>
   (\<not> (is_integral T \<or> is_floating_point T \<or> is_pointer T \<or>
       is_trivially_move_constructible T \<or> is_move_constructible T \<or>
       is_copy_constructible T) \<longrightarrow>
      possess_value T ops v = Inr (Nothing, v) \<and> Possessable T = Inr False) \<and>
   (Possessable T =
      (case possess_value T ops v of Inl e \<Rightarrow> Inl e | Inr r \<Rightarrow> Inr (fst r \<noteq> Nothing)))"
  by (auto simp add: possess_value_def possess_value_branch_def materialize_def Possessable_def
      possess_value_return_type_def null_value_def null_value_return_type_def split_beta
      split: sum.splits option.splits)

lemma possess_value_examples:
  "possess_value char_pointer_traits marking_ops 4096 = Inr (Prvalue 4096, 0)"
  "possess_value const_char_pointer_traits marking_ops 4096 = Inl Assignment_to_const"
  "possess_value both_traits trivial_ops 5 = Inr (Prvalue 5, - 1)"
  "possess_value unique_ptr_traits marking_ops 5 = Inr (Xvalue_of_argument, 5)"
  "materialize marking_ops (Xvalue_of_argument, 5) = Some (5, - 3)"
  "possess_value pinned_traits marking_ops 5 = Inl Return_ill_formed"
  "possess_value cv_copied_traits marking_ops 5 = Inr (Prvalue 5, - 1)"
  by (simp_all add: possess_value_def possess_value_branch_def materialize_def null_value_eval
      example_traits_defs marking_ops_def trivial_ops_def)

text \<open>
  Claim C2. \<open>possess_value\<close> dispatches by priority: arithmetic and pointer types are
  exchanged with zero; trivially move-constructible types are move-constructed into the
  result and the source is then nulled; types with a move constructor of their own are
  handed to \<open>std::move\<close>; types that can only be copied are copied and the source is
  then nulled; \<open>Possessable\<close> holds exactly when one of the branches applies. The
  dispatch is as \<open>possess_value_dispatch\<close> states it. The nulling is not: for
  \<open>range\<close> and \<open>tagged\<close>, which are trivially move constructible and for which
  \<open>null_value\<close> has no branch, the call returns the value, the source keeps it, and
  \<open>Possessable\<close> holds all the same.
\<close>

theorem possess_value_source_kept:
  "possess_value range_traits trivial_ops 5 = Inr (Prvalue 5, 5) \<and>
   possess_value tagged_traits trivial_ops 5 = Inr (Prvalue 5, 5) \<and>
   null_value range_traits trivial_ops 5 = Inr (5, None) \<and>
   null_value tagged_traits trivial_ops 5 = Inr (5, None) \<and>
   Nullable range_traits = Inr False \<and> Nullable tagged_traits = Inr False \<and>
   Possessable range_traits = Inr True \<and> Possessable tagged_traits = Inr True"
  by (simp add: possess_value_def possess_value_branch_def null_value_eval Possessable_def
      possess_value_return_type_def example_traits_defs marking_ops_def trivial_ops_def)

end
